theory Spec2Isabelle
  imports Main
begin

section \<open>Entities and inputs\<close>

text \<open>
  \<^verbatim>\<open>models/models.go\<close>: the two structs. \<^verbatim>\<open>Todo\<close> embeds a \<^verbatim>\<open>User\<close> by value and
  \<^verbatim>\<open>User\<close> holds a slice of \<^verbatim>\<open>Todo\<close>, so the two types are mutually recursive. Go's
  \<^verbatim>\<open>int\<close> is modelled as \<open>int\<close>: the resolvers do no arithmetic on it.
\<close>

datatype Todo = Todo (todo_ID: int) (todo_Text: string) (todo_Done: bool) (todo_UserID: int) (todo_User: User)
  and User = User (user_ID: int) (user_Name: string) (user_Todos: "Todo list")

text \<open>The zero values Go gives \<^verbatim>\<open>var user models.User\<close> and \<^verbatim>\<open>var todo models.Todo\<close>.\<close>

definition zero_User :: User where
  "zero_User = User 0 [] []"

definition zero_Todo :: Todo where
  "zero_Todo = Todo 0 [] False 0 zero_User"

text \<open>\<^verbatim>\<open>graph/model/models_gen.go\<close>: the input structs of the resolvers.\<close>

record EditTodo =
  edit_ID :: int
  edit_Text :: string

record FetchTodo =
  fetch_ID :: int

record NewTodo =
  new_Text :: string
  new_UserID :: int

record NewUser =
  new_Name :: string

section \<open>The database behind the handle\<close>

text \<open>
  \<^verbatim>\<open>mysql/connection.go\<close> opens the handle \<^verbatim>\<open>db\<close> and lets \<^verbatim>\<open>AutoMigrate\<close> create one table
  per struct. A row holds the columns of the struct's plain fields; the association
  fields (\<^verbatim>\<open>Todo.User\<close>, \<^verbatim>\<open>User.Todos\<close>) have no column.

  The state is the two tables (rows in the order they were inserted), the
  \<^verbatim>\<open>AUTO_INCREMENT\<close> counter of each table, and \<open>failing\<close>: the statements the driver
  cannot carry out at present. The resolvers send six statements, and a request sends
  each of them at most once, so \<open>failing\<close> describes every way the connection can be lost
  during a request: for all of its calls, or for its later calls only. A failing
  statement returns a driver error and changes nothing. \<open>driver_ok\<close> says that no
  statement fails.

  GORM's MySQL dialect migrates a Go \<^verbatim>\<open>int\<close> to a column \<^verbatim>\<open>int\<close> (32 bits, signed) and a
  Go \<^verbatim>\<open>string\<close> to \<^verbatim>\<open>varchar(255)\<close>. The server (in its default strict mode) rejects a
  statement that would store a value outside its column: the statement fails with a
  driver error and changes nothing. A generated id is such a value too, once the
  counter has passed the range of the id column. A string is its list of characters, each
  taken to be one the column's character set can store, and its length is their number.
\<close>

record todo_row =
  t_id :: int
  t_text :: string
  t_done :: bool
  t_user_id :: int

record user_row =
  u_id :: int
  u_name :: string

datatype stmt =
  SELECT_todos | SELECT_users | INSERT_todos | INSERT_users | UPDATE_todos | DELETE_todos

record DB =
  todos :: "todo_row list"
  users :: "user_row list"
  todos_next_id :: int
  users_next_id :: int
  failing :: "stmt list"

definition fails :: "DB \<Rightarrow> stmt \<Rightarrow> bool" where
  "fails db q \<longleftrightarrow> q \<in> set (failing db)"

definition driver_ok :: "DB \<Rightarrow> bool" where
  "driver_ok db \<longleftrightarrow> failing db = []"

text \<open>
  The error a GORM call leaves in its \<^verbatim>\<open>Error\<close> field: \<^verbatim>\<open>gorm.ErrRecordNotFound\<close>, or
  the error of the SQL driver.
\<close>

datatype db_error = ErrRecordNotFound | ErrDriver

text \<open>The values the columns hold: \<^verbatim>\<open>int\<close> and \<^verbatim>\<open>varchar(255)\<close>.\<close>

definition int32 :: "int \<Rightarrow> bool" where
  "int32 n \<longleftrightarrow> - 2147483648 \<le> n \<and> n \<le> 2147483647"

definition varchar255 :: "string \<Rightarrow> bool" where
  "varchar255 s \<longleftrightarrow> length s \<le> 255"

text \<open>Whether an id, a text and an owner id fit the columns of \<^verbatim>\<open>todos\<close>, and an id and a
  name those of \<^verbatim>\<open>users\<close>.\<close>

definition fits_todo :: "int \<Rightarrow> string \<Rightarrow> int \<Rightarrow> bool" where
  "fits_todo k txt u \<longleftrightarrow> int32 k \<and> varchar255 txt \<and> int32 u"

definition fits_user :: "int \<Rightarrow> string \<Rightarrow> bool" where
  "fits_user k name \<longleftrightarrow> int32 k \<and> varchar255 name"

text \<open>
  What \<^verbatim>\<open>Connection()\<close> returns on a server that has no \<^verbatim>\<open>gqlgen\<close> database yet: both
  tables are created empty, and the first generated id of each is 1.
\<close>

definition fresh_DB :: DB where
  "fresh_DB = \<lparr>todos = [], users = [], todos_next_id = 1, users_next_id = 1, failing = []\<rparr>"

section \<open>The GORM calls the resolvers make\<close>

text \<open>
  The resolvers call \<^verbatim>\<open>github.com/jinzhu/gorm\<close> (GORM v1): \<^verbatim>\<open>Create\<close>, \<^verbatim>\<open>First\<close>, \<^verbatim>\<open>Find\<close>,
  \<^verbatim>\<open>Preload\<close>, \<^verbatim>\<open>Model(...).Update\<close> and \<^verbatim>\<open>Delete\<close>. Each is modelled by the SQL statement
  it builds for the struct it is given, run on the tables above. Every call returns the
  struct as the call leaves it, the call's \<^verbatim>\<open>Error\<close>, and the state of the database.

  \<^verbatim>\<open>Create\<close> and \<^verbatim>\<open>Update\<close> also save a struct's association field when it is not
  blank. No resolver fills that field before either call (lemma
  \<open>gorm_First_keeps_User\<close> for the lookup without preload; the struct literals leave
  it zero), so no such statement is ever sent, and the calls below have none.
\<close>

text \<open>
  Reading a row into a struct (\<^verbatim>\<open>Scope.scan\<close>) sets the fields that have a column and
  leaves the association field as it was.
\<close>

definition scan_Todo :: "todo_row \<Rightarrow> Todo \<Rightarrow> Todo" where
  "scan_Todo r out = Todo (t_id r) (t_text r) (t_done r) (t_user_id r) (todo_User out)"

definition scan_User :: "user_row \<Rightarrow> User" where
  "scan_User u = User (u_id u) (u_name u) []"

text \<open>
  The primary-key condition GORM adds for the struct a call is given
  (\<^verbatim>\<open>Scope.whereSQL\<close>): \<^verbatim>\<open>WHERE id = k\<close> when the struct's \<^verbatim>\<open>ID\<close> is \<open>k\<close>, and no
  condition at all when the \<^verbatim>\<open>ID\<close> is blank (\<^verbatim>\<open>Scope.PrimaryKeyZero\<close>: the zero value).
\<close>

definition pk_cond :: "int \<Rightarrow> todo_row \<Rightarrow> bool" where
  "pk_cond k r \<longleftrightarrow> k = 0 \<or> t_id r = k"

text \<open>
  The inline condition of \<^verbatim>\<open>First(&out, n)\<close> with an integer \<open>n\<close>: \<^verbatim>\<open>WHERE id = n\<close>,
  whatever \<open>n\<close> is. \<^verbatim>\<open>First(&out)\<close> has none.
\<close>

definition inline_cond :: "int option \<Rightarrow> todo_row \<Rightarrow> bool" where
  "inline_cond w r \<longleftrightarrow> (case w of None \<Rightarrow> True | Some n \<Rightarrow> t_id r = n)"

text \<open>
  \<^verbatim>\<open>Preload("User")\<close> on one loaded \<^verbatim>\<open>Todo\<close> (\<^verbatim>\<open>handleBelongsToPreload\<close>): a blank
  \<^verbatim>\<open>UserID\<close> is not looked up; otherwise the users with that id are selected and each
  one found is assigned to the \<^verbatim>\<open>User\<close> field in turn. A user loaded this way has no
  \<^verbatim>\<open>Todos\<close>.
\<close>

definition preload_User :: "DB \<Rightarrow> Todo \<Rightarrow> Todo" where
  "preload_User db t =
     (if todo_UserID t = 0 then t
      else case filter (\<lambda>u. u_id u = todo_UserID t) (users db) of
             [] \<Rightarrow> t
           | u # us \<Rightarrow> Todo (todo_ID t) (todo_Text t) (todo_Done t) (todo_UserID t)
                         (scan_User (last (u # us))))"

text \<open>
  The preload as a call: no statement is sent for a blank \<^verbatim>\<open>UserID\<close>; a failing
  \<^verbatim>\<open>SELECT\<close> on \<^verbatim>\<open>users\<close> leaves the \<^verbatim>\<open>User\<close> field as it was and reports the error.
\<close>

definition gorm_Preload_User :: "DB \<Rightarrow> Todo \<Rightarrow> Todo \<times> db_error option \<times> DB" where
  "gorm_Preload_User db t =
     (if todo_UserID t = 0 then (t, None, db)
      else if fails db SELECT_users then (t, Some ErrDriver, db)
      else (preload_User db t, None, db))"

text \<open>
  \<^verbatim>\<open>db.First(&out)\<close>, \<^verbatim>\<open>db.First(&out, n)\<close> and the same after \<^verbatim>\<open>Preload("User")\<close>:
  \<^verbatim>\<open>SELECT * FROM todos WHERE ... ORDER BY id ASC LIMIT 1\<close>. No row leaves \<open>out\<close>
  untouched and sets \<^verbatim>\<open>ErrRecordNotFound\<close>; the preload runs only after a query without
  error.
\<close>

definition gorm_First :: "DB \<Rightarrow> bool \<Rightarrow> Todo \<Rightarrow> int option \<Rightarrow> Todo \<times> db_error option \<times> DB" where
  "gorm_First db preload out w =
     (if fails db SELECT_todos then (out, Some ErrDriver, db)
      else case filter (\<lambda>r. pk_cond (todo_ID out) r \<and> inline_cond w r) (todos db) of
             [] \<Rightarrow> (out, Some ErrRecordNotFound, db)
           | r # rs \<Rightarrow>
               (let t = scan_Todo (arg_min_list t_id (r # rs)) out
                in if preload then gorm_Preload_User db t else (t, None, db)))"

text \<open>
  \<^verbatim>\<open>db.Preload("User").Find(&todos)\<close> and \<^verbatim>\<open>db.Find(&users)\<close> on a nil slice:
  \<^verbatim>\<open>SELECT * FROM todos\<close>, one element per row, in the order the table holds them. The
  preload sends one \<^verbatim>\<open>SELECT\<close> on \<^verbatim>\<open>users\<close> for the owner ids that are not blank, and none
  when there is no such id.
\<close>

definition gorm_Find_Todos :: "DB \<Rightarrow> bool \<Rightarrow> Todo list \<times> db_error option \<times> DB" where
  "gorm_Find_Todos db preload =
     (if fails db SELECT_todos then ([], Some ErrDriver, db)
      else
        (let ts = map (\<lambda>r. scan_Todo r zero_Todo) (todos db)
         in if \<not> preload then (ts, None, db)
            else if list_ex (\<lambda>t. todo_UserID t \<noteq> 0) ts \<and> fails db SELECT_users
              then (ts, Some ErrDriver, db)
            else (map (preload_User db) ts, None, db)))"

definition gorm_Find_Users :: "DB \<Rightarrow> User list \<times> db_error option \<times> DB" where
  "gorm_Find_Users db =
     (if fails db SELECT_users then ([], Some ErrDriver, db)
      else (map scan_User (users db), None, db))"

text \<open>
  \<^verbatim>\<open>db.Create(&v)\<close>: \<^verbatim>\<open>INSERT INTO todos (text, done, user_id) VALUES (...)\<close>. A blank
  \<^verbatim>\<open>ID\<close> is left out of the statement, the table's counter generates it and GORM
  writes it back into the struct. A set \<^verbatim>\<open>ID\<close> is inserted as it is: a duplicate is a
  driver error, and the counter moves past an id it has not reached. A row with a value
  that does not fit its column is rejected: nothing is inserted, the counter stays, and
  the struct keeps its blank \<^verbatim>\<open>ID\<close>.
\<close>

definition gorm_Create_Todo :: "DB \<Rightarrow> Todo \<Rightarrow> Todo \<times> db_error option \<times> DB" where
  "gorm_Create_Todo db v =
     (if fails db INSERT_todos then (v, Some ErrDriver, db)
      else if todo_ID v = 0 then
        (let n = todos_next_id db;
             row = \<lparr>t_id = n, t_text = todo_Text v, t_done = todo_Done v, t_user_id = todo_UserID v\<rparr>
         in if \<not> fits_todo n (todo_Text v) (todo_UserID v) then (v, Some ErrDriver, db)
            else (Todo n (todo_Text v) (todo_Done v) (todo_UserID v) (todo_User v), None,
                  db\<lparr>todos := todos db @ [row], todos_next_id := n + 1\<rparr>))
      else if \<not> fits_todo (todo_ID v) (todo_Text v) (todo_UserID v) then (v, Some ErrDriver, db)
      else if todo_ID v \<in> set (map t_id (todos db)) then (v, Some ErrDriver, db)
      else
        (let row = \<lparr>t_id = todo_ID v, t_text = todo_Text v, t_done = todo_Done v,
                    t_user_id = todo_UserID v\<rparr>
         in (v, None, db\<lparr>todos := todos db @ [row],
                          todos_next_id := max (todos_next_id db) (todo_ID v + 1)\<rparr>)))"

definition gorm_Create_User :: "DB \<Rightarrow> User \<Rightarrow> User \<times> db_error option \<times> DB" where
  "gorm_Create_User db v =
     (if fails db INSERT_users then (v, Some ErrDriver, db)
      else if user_ID v = 0 then
        (let n = users_next_id db;
             row = \<lparr>u_id = n, u_name = user_Name v\<rparr>
         in if \<not> fits_user n (user_Name v) then (v, Some ErrDriver, db)
            else (User n (user_Name v) (user_Todos v), None,
                  db\<lparr>users := users db @ [row], users_next_id := n + 1\<rparr>))
      else if \<not> fits_user (user_ID v) (user_Name v) then (v, Some ErrDriver, db)
      else if user_ID v \<in> set (map u_id (users db)) then (v, Some ErrDriver, db)
      else
        (let row = \<lparr>u_id = user_ID v, u_name = user_Name v\<rparr>
         in (v, None, db\<lparr>users := users db @ [row],
                          users_next_id := max (users_next_id db) (user_ID v + 1)\<rparr>)))"

text \<open>
  \<^verbatim>\<open>db.Model(&models.Todo{}).Update(&v)\<close>. GORM turns the struct into the assignments
  of its non-blank fields only (\<^verbatim>\<open>convertInterfaceToMap\<close>), copies them into the empty
  model, and runs \<^verbatim>\<open>UPDATE todos SET ... WHERE id = k\<close> with the model's primary key,
  which is the struct's \<^verbatim>\<open>ID\<close> when that is not blank. With a blank \<^verbatim>\<open>ID\<close> the statement
  has no \<^verbatim>\<open>WHERE\<close>; with no non-blank field at all no statement is sent. The server
  rejects the statement when it finds a row to update and an assigned value does not fit
  its column; then no row is changed.
\<close>

definition assign_Todo :: "Todo \<Rightarrow> todo_row \<Rightarrow> todo_row" where
  "assign_Todo v r =
     \<lparr>t_id = (if todo_ID v = 0 then t_id r else todo_ID v),
      t_text = (if todo_Text v = [] then t_text r else todo_Text v),
      t_done = (if todo_Done v then True else t_done r),
      t_user_id = (if todo_UserID v = 0 then t_user_id r else todo_UserID v)\<rparr>"

definition gorm_Update_Todo :: "DB \<Rightarrow> Todo \<Rightarrow> Todo \<times> db_error option \<times> DB" where
  "gorm_Update_Todo db v =
     (if fails db UPDATE_todos then (v, Some ErrDriver, db)
      else if todo_ID v = 0 \<and> todo_Text v = [] \<and> \<not> todo_Done v \<and> todo_UserID v = 0
        then (v, None, db)
      else if list_ex (pk_cond (todo_ID v)) (todos db) \<and>
              \<not> fits_todo (todo_ID v) (todo_Text v) (todo_UserID v)
        then (v, Some ErrDriver, db)
      else (v, None,
            db\<lparr>todos := map (\<lambda>r. if pk_cond (todo_ID v) r then assign_Todo v r else r) (todos db)\<rparr>))"

text \<open>
  \<^verbatim>\<open>db.Delete(&v)\<close>: \<^verbatim>\<open>DELETE FROM todos WHERE id = k\<close>, and every row when the \<^verbatim>\<open>ID\<close>
  is blank. The struct is not changed.
\<close>

definition gorm_Delete_Todo :: "DB \<Rightarrow> Todo \<Rightarrow> Todo \<times> db_error option \<times> DB" where
  "gorm_Delete_Todo db v =
     (if fails db DELETE_todos then (v, Some ErrDriver, db)
      else (v, None, db\<lparr>todos := filter (\<lambda>r. \<not> pk_cond (todo_ID v) r) (todos db)\<rparr>))"

section \<open>The resolvers (graph/schema.resolvers.go)\<close>

text \<open>
  A resolver returns a value and an \<^verbatim>\<open>error\<close>, or panics. Every resolver drops the
  \<^verbatim>\<open>*gorm.DB\<close> its calls return and ends in \<^verbatim>\<open>return &x, nil\<close>.
\<close>

datatype 'a outcome = Returned 'a "db_error option" | Panicked

text \<open>The resolver returned, and the \<^verbatim>\<open>error\<close> it returned is nil.\<close>

definition nil_error :: "'a outcome \<Rightarrow> bool" where
  "nil_error x \<longleftrightarrow> (case x of Returned v e \<Rightarrow> e = None | Panicked \<Rightarrow> False)"

definition CreateTodo :: "DB \<Rightarrow> NewTodo \<Rightarrow> Todo outcome \<times> DB" where
  "CreateTodo db input =
     (let todo = Todo 0 (new_Text input) False (new_UserID input) zero_User;
          (todo, err, db) = gorm_Create_Todo db todo
      in (Returned todo None, db))"

definition UpdateTodo :: "DB \<Rightarrow> EditTodo \<Rightarrow> Todo outcome \<times> DB" where
  "UpdateTodo db input =
     (let todo = Todo (edit_ID input) [] False 0 zero_User;
          (todo, err, db) = gorm_First db False todo None;
          todo = Todo (todo_ID todo) (edit_Text input) (todo_Done todo) (todo_UserID todo)
                   (todo_User todo);
          (todo, err, db) = gorm_Update_Todo db todo
      in (Returned todo None, db))"

definition DeleteTodo :: "DB \<Rightarrow> int \<Rightarrow> Todo outcome \<times> DB" where
  "DeleteTodo db input =
     (let todo = Todo input [] False 0 zero_User;
          (todo, err, db) = gorm_First db False todo None;
          (todo, err, db) = gorm_Delete_Todo db todo
      in (Returned todo None, db))"

definition CreateUser :: "DB \<Rightarrow> NewUser \<Rightarrow> User outcome \<times> DB" where
  "CreateUser db input =
     (let user = User 0 (new_Name input) [];
          (user, err, db) = gorm_Create_User db user
      in (Returned user None, db))"

text \<open>
  The three methods of \<^verbatim>\<open>queryResolver\<close> are \<^verbatim>\<open>Todos\<close>, \<^verbatim>\<open>Users\<close> and \<^verbatim>\<open>Todo\<close>; the last
  takes a pointer, which the schema lets be nil, and dereferences it unchecked.
\<close>

definition query_Todos :: "DB \<Rightarrow> Todo list outcome \<times> DB" where
  "query_Todos db =
     (let (todos, err, db) = gorm_Find_Todos db True
      in (Returned todos None, db))"

definition query_Users :: "DB \<Rightarrow> User list outcome \<times> DB" where
  "query_Users db =
     (let (users, err, db) = gorm_Find_Users db
      in (Returned users None, db))"

definition query_Todo :: "DB \<Rightarrow> FetchTodo option \<Rightarrow> Todo outcome \<times> DB" where
  "query_Todo db input =
     (case input of
        None \<Rightarrow> (Panicked, db)
      | Some i \<Rightarrow>
          (let (todo, err, db) = gorm_First db True zero_Todo (Some (fetch_ID i))
           in (Returned todo None, db)))"

section \<open>Stored rows, reachable states and request sequences\<close>

text \<open>Whether the \<^verbatim>\<open>todos\<close> table holds a row with the given id.\<close>

definition stored_Todo :: "DB \<Rightarrow> int \<Rightarrow> bool" where
  "stored_Todo db k \<longleftrightarrow> k \<in> set (map t_id (todos db))"

text \<open>
  What the primary key and \<^verbatim>\<open>AUTO_INCREMENT\<close> guarantee of a table that only the
  resolvers write: ids are unique, positive, and below the table's counter.
\<close>

definition wf :: "DB \<Rightarrow> bool" where
  "wf db \<longleftrightarrow>
     distinct (map t_id (todos db)) \<and>
     list_all (\<lambda>r. 0 < t_id r \<and> t_id r < todos_next_id db) (todos db) \<and>
     0 < todos_next_id db \<and>
     distinct (map u_id (users db)) \<and>
     list_all (\<lambda>u. 0 < u_id u \<and> u_id u < users_next_id db) (users db) \<and>
     0 < users_next_id db"

text \<open>
  The seven operations of the schema as requests, and the state a request leaves: the
  generated server calls the resolver of the request on the one shared handle.
\<close>

datatype request =
    ReqCreateTodo NewTodo
  | ReqUpdateTodo EditTodo
  | ReqDeleteTodo int
  | ReqCreateUser NewUser
  | ReqTodos
  | ReqUsers
  | ReqTodo "FetchTodo option"

fun serve :: "DB \<Rightarrow> request \<Rightarrow> DB" where
  "serve db (ReqCreateTodo i) = snd (CreateTodo db i)"
| "serve db (ReqUpdateTodo i) = snd (UpdateTodo db i)"
| "serve db (ReqDeleteTodo k) = snd (DeleteTodo db k)"
| "serve db (ReqCreateUser i) = snd (CreateUser db i)"
| "serve db ReqTodos = snd (query_Todos db)"
| "serve db ReqUsers = snd (query_Users db)"
| "serve db (ReqTodo i) = snd (query_Todo db i)"

definition run :: "DB \<Rightarrow> request list \<Rightarrow> DB" where
  "run db reqs = foldl serve db reqs"

text \<open>The columns of a row that no resolver is meant to change: id, done and owner.\<close>

definition frame :: "todo_row \<Rightarrow> int \<times> bool \<times> int" where
  "frame r = (t_id r, t_done r, t_user_id r)"

text \<open>
  A state used in the examples: one user and two todos of that user, as three create
  requests leave a fresh database (lemma \<open>sample_DB_reached\<close>).
\<close>

definition sample_DB :: DB where
  "sample_DB =
     \<lparr>todos = [\<lparr>t_id = 1, t_text = ''a'', t_done = False, t_user_id = 1\<rparr>,
               \<lparr>t_id = 2, t_text = ''b'', t_done = False, t_user_id = 1\<rparr>],
      users = [\<lparr>u_id = 1, u_name = ''Jamie''\<rparr>],
      todos_next_id = 3, users_next_id = 2, failing = []\<rparr>"

text \<open>
  A loaded \<^verbatim>\<open>Todo\<close> agrees with a row: the same four columns, and the \<^verbatim>\<open>User\<close> field
  holds the id and name of every stored user the row's \<^verbatim>\<open>user_id\<close> points to.
\<close>

definition resolved :: "DB \<Rightarrow> Todo \<Rightarrow> todo_row \<Rightarrow> bool" where
  "resolved db t r \<longleftrightarrow>
     todo_ID t = t_id r \<and> todo_Text t = t_text r \<and> todo_Done t = t_done r \<and>
     todo_UserID t = t_user_id r \<and>
     list_all (\<lambda>u. u_id u = t_user_id r \<longrightarrow> todo_User t = User (u_id u) (u_name u) []) (users db)"

section \<open>The example state and the invariant\<close>

lemma sample_DB_reached:
  "run fresh_DB [ReqCreateUser \<lparr>new_Name = ''Jamie''\<rparr>,
                 ReqCreateTodo \<lparr>new_Text = ''a'', new_UserID = 1\<rparr>,
                 ReqCreateTodo \<lparr>new_Text = ''b'', new_UserID = 1\<rparr>] = sample_DB"
  by (simp add: run_def CreateUser_def CreateTodo_def gorm_Create_User_def gorm_Create_Todo_def
      fits_todo_def fits_user_def int32_def varchar255_def fails_def fresh_DB_def sample_DB_def
      Let_def)

lemma driver_ok_fails: "driver_ok db \<Longrightarrow> fails db q = False"
  by (simp add: driver_ok_def fails_def)

lemma driver_ok_sample_DB: "driver_ok sample_DB"
  by (simp add: driver_ok_def sample_DB_def)

lemma driver_ok_fresh_DB: "driver_ok fresh_DB"
  by (simp add: driver_ok_def fresh_DB_def)

lemma wf_sample_DB: "wf sample_DB"
  by (simp add: wf_def sample_DB_def)

lemma wf_fresh_DB: "wf fresh_DB"
  by (simp add: wf_def fresh_DB_def)

lemma wf_D:
  assumes "wf db" "r \<in> set (todos db)"
  shows "0 < t_id r" "t_id r < todos_next_id db"
  using assms by (auto simp: wf_def list_all_iff)

lemma wf_unique:
  assumes "wf db" "r \<in> set (todos db)" "x \<in> set (todos db)" "t_id x = t_id r"
  shows "x = r"
proof -
  have "inj_on t_id (set (todos db))"
    using assms(1) by (simp add: wf_def distinct_map)
  then show ?thesis using assms(2-4) by (auto dest: inj_onD)
qed

lemma wf_alt:
  "wf db \<longleftrightarrow>
     distinct (map t_id (todos db)) \<and>
     (\<forall>k\<in>set (map t_id (todos db)). 0 < k \<and> k < todos_next_id db) \<and>
     0 < todos_next_id db \<and>
     distinct (map u_id (users db)) \<and>
     (\<forall>k\<in>set (map u_id (users db)). 0 < k \<and> k < users_next_id db) \<and>
     0 < users_next_id db"
  by (auto simp: wf_def list_all_iff)

section \<open>Looking a todo up by id\<close>

lemma filter_key_unique:
  "distinct (map f xs) \<Longrightarrow> r \<in> set xs \<Longrightarrow> filter (\<lambda>x. f x = f r) xs = [r]"
  by (induction xs) (auto simp: filter_empty_conv image_iff)

lemma filter_pk_hit:
  assumes "wf db" "r \<in> set (todos db)"
  shows "filter (\<lambda>x. pk_cond (t_id r) x \<and> inline_cond w x) (todos db) =
         (if inline_cond w r then [r] else [])"
proof -
  have nz: "t_id r \<noteq> 0" using wf_D(1)[OF assms] by simp
  have d: "distinct (map t_id (todos db))" using assms(1) by (simp add: wf_def)
  have u: "filter (\<lambda>x. t_id x = t_id r) (todos db) = [r]"
    using d assms(2) by (rule filter_key_unique)
  have "filter (\<lambda>x. pk_cond (t_id r) x \<and> inline_cond w x) (todos db) =
        filter (inline_cond w) (filter (\<lambda>x. t_id x = t_id r) (todos db))"
    using nz by (simp add: pk_cond_def conj_commute)
  then show ?thesis by (simp add: u)
qed

lemma gorm_First_hit:
  assumes "wf db" "\<not> fails db SELECT_todos" "r \<in> set (todos db)" "todo_ID out = t_id r"
  shows "gorm_First db False out None = (scan_Todo r out, None, db)"
  using filter_pk_hit[OF assms(1,3), of None] assms(2,4)
  by (simp add: gorm_First_def inline_cond_def)

lemma gorm_First_miss:
  assumes "\<not> stored_Todo db k" "k \<noteq> 0" "todo_ID out = k"
  shows "\<exists>e. gorm_First db p out w = (out, Some e, db)"
proof -
  have "filter (\<lambda>r. pk_cond k r \<and> inline_cond w r) (todos db) = []"
    using assms(1,2) by (auto simp: filter_empty_conv pk_cond_def stored_Todo_def)
  then show ?thesis using assms(3) by (simp add: gorm_First_def)
qed

lemma gorm_First_inline_miss:
  assumes "\<not> stored_Todo db k"
  shows "\<exists>e. gorm_First db p out (Some k) = (out, Some e, db)"
proof -
  have "filter (\<lambda>r. pk_cond (todo_ID out) r \<and> inline_cond (Some k) r) (todos db) = []"
    using assms by (auto simp: filter_empty_conv inline_cond_def stored_Todo_def)
  then show ?thesis by (simp add: gorm_First_def)
qed

lemma miss_filter_id:
  assumes "\<not> stored_Todo db k" "k \<noteq> 0"
  shows "filter (\<lambda>r. \<not> pk_cond k r) (todos db) = todos db"
    and "map (\<lambda>r. if pk_cond k r then g r else r) (todos db) = todos db"
  using assms by (auto simp: filter_id_conv pk_cond_def stored_Todo_def intro!: map_idI)

lemma gorm_First_db: "snd (snd (gorm_First db p out w)) = db"
  by (simp add: gorm_First_def gorm_Preload_User_def Let_def split: list.splits)

lemma gorm_First_keeps_User: "todo_User (fst (gorm_First db False out w)) = todo_User out"
  by (simp add: gorm_First_def scan_Todo_def Let_def split: list.splits)

lemma gorm_First_cases:
  assumes "gorm_First db False out None = (t, e, d)"
  shows "d = db \<and>
         (t = out \<or> (\<exists>r\<in>set (todos db). pk_cond (todo_ID out) r \<and> t = scan_Todo r out))"
proof (cases "fails db SELECT_todos")
  case True
  then show ?thesis using assms by (simp add: gorm_First_def)
next
  case False
  let ?c = "filter (\<lambda>r. pk_cond (todo_ID out) r \<and> inline_cond None r) (todos db)"
  show ?thesis
  proof (cases ?c)
    case Nil
    then show ?thesis using assms False by (simp add: gorm_First_def)
  next
    case (Cons a as)
    have "arg_min_list t_id ?c \<in> set ?c"
      by (rule arg_min_list_in) (simp add: Cons)
    then have m: "arg_min_list t_id (a # as) \<in> set (todos db)"
      "pk_cond (todo_ID out) (arg_min_list t_id (a # as))"
      by (simp_all add: Cons[symmetric])
    have "t = scan_Todo (arg_min_list t_id (a # as)) out" "d = db"
      using assms False Cons by (simp_all add: gorm_First_def Let_def)
    then show ?thesis using m by blast
  qed
qed

section \<open>What each resolver does to the tables\<close>

lemma assign_frame:
  "t_id r = todo_ID v \<Longrightarrow> t_done r = todo_Done v \<Longrightarrow> t_user_id r = todo_UserID v \<Longrightarrow>
   frame (assign_Todo v r) = frame r"
  by (simp add: frame_def assign_Todo_def)

lemma map_frame_ids: "map frame xs = map frame ys \<Longrightarrow> map t_id xs = map t_id ys"
proof -
  assume "map frame xs = map frame ys"
  then have "map fst (map frame xs) = map fst (map frame ys)" by simp
  then show ?thesis by (simp add: frame_def comp_def)
qed

lemma UpdateTodo_frame:
  assumes "wf db"
  shows "map frame (todos (snd (UpdateTodo db i))) = map frame (todos db) \<and>
         users (snd (UpdateTodo db i)) = users db \<and>
         todos_next_id (snd (UpdateTodo db i)) = todos_next_id db \<and>
         users_next_id (snd (UpdateTodo db i)) = users_next_id db \<and>
         failing (snd (UpdateTodo db i)) = failing db"
proof -
  define out where "out = Todo (edit_ID i) [] False 0 zero_User"
  obtain t e d where F: "gorm_First db False out None = (t, e, d)"
    by (cases "gorm_First db False out None") auto
  define v where "v = Todo (todo_ID t) (edit_Text i) (todo_Done t) (todo_UserID t) (todo_User t)"
  have U: "snd (UpdateTodo db i) = snd (snd (gorm_Update_Todo d v))"
    by (simp add: UpdateTodo_def F out_def[symmetric] v_def[symmetric] Let_def split: prod.splits)
  from gorm_First_cases[OF F] have d: "d = db" by simp
  have rest: "users (snd (snd (gorm_Update_Todo db v))) = users db \<and>
         todos_next_id (snd (snd (gorm_Update_Todo db v))) = todos_next_id db \<and>
         users_next_id (snd (snd (gorm_Update_Todo db v))) = users_next_id db \<and>
         failing (snd (snd (gorm_Update_Todo db v))) = failing db"
    by (simp add: gorm_Update_Todo_def)
  have keep: "frame (if pk_cond (todo_ID v) x then assign_Todo v x else x) = frame x"
    if x: "x \<in> set (todos db)" for x
  proof -
    consider (same) "t = out"
      | (hit) r where "r \<in> set (todos db)" "pk_cond (todo_ID out) r" "t = scan_Todo r out"
      using gorm_First_cases[OF F] by blast
    then show ?thesis
    proof cases
      case same
      then have "\<not> todo_Done v" "todo_UserID v = 0" by (simp_all add: v_def out_def)
      then show ?thesis by (auto simp: frame_def assign_Todo_def pk_cond_def)
    next
      case hit
      have v: "v = Todo (t_id r) (edit_Text i) (t_done r) (t_user_id r) zero_User"
        by (simp add: v_def hit(3) out_def scan_Todo_def)
      have nz: "t_id r \<noteq> 0" using wf_D(1)[OF assms hit(1)] by simp
      show ?thesis
      proof (cases "pk_cond (todo_ID v) x")
        case True
        then have "t_id x = t_id r" using nz by (simp add: v pk_cond_def)
        then have "x = r" using wf_unique[OF assms hit(1) x] by simp
        then show ?thesis using True by (simp add: v assign_frame)
      next
        case False
        then show ?thesis by simp
      qed
    qed
  qed
  have "map frame (map (\<lambda>x. if pk_cond (todo_ID v) x then assign_Todo v x else x) (todos db))
          = map frame (todos db)"
    using keep by (simp add: map_idI cong: map_cong)
  then have "map frame (todos (snd (snd (gorm_Update_Todo db v)))) = map frame (todos db)"
    by (simp add: gorm_Update_Todo_def)
  then show ?thesis using rest by (simp add: U d)
qed

lemma DeleteTodo_todos:
  "\<exists>P. snd (DeleteTodo db k) = db\<lparr>todos := filter P (todos db)\<rparr>"
proof -
  obtain t e d where F: "gorm_First db False (Todo k [] False 0 zero_User) None = (t, e, d)"
    by (cases "gorm_First db False (Todo k [] False 0 zero_User) None") auto
  have d: "d = db" using gorm_First_db[of db False "Todo k [] False 0 zero_User" None]
    by (simp add: F)
  show ?thesis
  proof (cases "fails db DELETE_todos")
    case False
    then have "snd (DeleteTodo db k) = db\<lparr>todos := filter (\<lambda>r. \<not> pk_cond (todo_ID t) r) (todos db)\<rparr>"
      by (simp add: DeleteTodo_def F d gorm_Delete_Todo_def Let_def)
    then show ?thesis by blast
  next
    case True
    then have "snd (DeleteTodo db k) = db\<lparr>todos := filter (\<lambda>r. True) (todos db)\<rparr>"
      by (simp add: DeleteTodo_def F d gorm_Delete_Todo_def Let_def)
    then show ?thesis by blast
  qed
qed

lemma DeleteTodo_miss:
  assumes "\<not> stored_Todo db k" "k \<noteq> 0"
  shows "DeleteTodo db k = (Returned (Todo k [] False 0 zero_User) None, db)"
proof -
  obtain e' where m: "gorm_First db False (Todo k [] False 0 zero_User) None
                        = (Todo k [] False 0 zero_User, Some e', db)"
    using gorm_First_miss[OF assms, of "Todo k [] False 0 zero_User"] by auto
  show ?thesis
    by (simp add: DeleteTodo_def m gorm_Delete_Todo_def Let_def miss_filter_id(1)[OF assms])
qed

lemma queries_pure:
  "snd (query_Todos db) = db" "snd (query_Users db) = db" "snd (query_Todo db input) = db"
  by (simp_all add: query_Todos_def query_Users_def query_Todo_def gorm_Find_Todos_def
      gorm_Find_Users_def gorm_First_def gorm_Preload_User_def Let_def
      split: option.splits list.splits)

section \<open>The invariant holds in every reachable state\<close>

lemma CreateTodo_cases:
  "snd (CreateTodo db i) = db \<or>
   snd (CreateTodo db i) =
     db\<lparr>todos := todos db @ [\<lparr>t_id = todos_next_id db, t_text = new_Text i, t_done = False,
                                t_user_id = new_UserID i\<rparr>],
        todos_next_id := todos_next_id db + 1\<rparr>"
  by (simp add: CreateTodo_def gorm_Create_Todo_def Let_def)

lemma CreateUser_cases:
  "snd (CreateUser db i) = db \<or>
   snd (CreateUser db i) =
     db\<lparr>users := users db @ [\<lparr>u_id = users_next_id db, u_name = new_Name i\<rparr>],
        users_next_id := users_next_id db + 1\<rparr>"
  by (simp add: CreateUser_def gorm_Create_User_def Let_def)

lemma wf_CreateTodo:
  assumes "wf db" shows "wf (snd (CreateTodo db i))"
  using CreateTodo_cases[of db i]
proof
  assume "snd (CreateTodo db i) = db"
  then show ?thesis using assms by simp
next
  assume s: "snd (CreateTodo db i) =
     db\<lparr>todos := todos db @ [\<lparr>t_id = todos_next_id db, t_text = new_Text i, t_done = False,
                                t_user_id = new_UserID i\<rparr>],
        todos_next_id := todos_next_id db + 1\<rparr>"
  show ?thesis unfolding s using assms by (fastforce simp: wf_alt)
qed

lemma wf_CreateUser:
  assumes "wf db" shows "wf (snd (CreateUser db i))"
  using CreateUser_cases[of db i]
proof
  assume "snd (CreateUser db i) = db"
  then show ?thesis using assms by simp
next
  assume s: "snd (CreateUser db i) =
     db\<lparr>users := users db @ [\<lparr>u_id = users_next_id db, u_name = new_Name i\<rparr>],
        users_next_id := users_next_id db + 1\<rparr>"
  show ?thesis unfolding s using assms by (fastforce simp: wf_alt)
qed

lemma wf_UpdateTodo:
  assumes "wf db" shows "wf (snd (UpdateTodo db i))"
proof -
  let ?d = "snd (UpdateTodo db i)"
  note f = UpdateTodo_frame[OF assms, of i]
  from f have a: "map frame (todos ?d) = map frame (todos db)" by blast
  from f have b: "users ?d = users db" by blast
  from f have c: "todos_next_id ?d = todos_next_id db" by blast
  from f have e: "users_next_id ?d = users_next_id db" by blast
  have ids: "map t_id (todos ?d) = map t_id (todos db)"
    using a by (rule map_frame_ids)
  show ?thesis using assms unfolding wf_alt ids b c e .
qed

lemma wf_DeleteTodo:
  assumes "wf db" shows "wf (snd (DeleteTodo db k))"
proof -
  obtain P where "snd (DeleteTodo db k) = db\<lparr>todos := filter P (todos db)\<rparr>"
    using DeleteTodo_todos by blast
  then show ?thesis using assms by (auto simp: wf_alt distinct_map_filter)
qed

lemma wf_serve: "wf db \<Longrightarrow> wf (serve db q)"
  by (cases q) (simp_all add: wf_CreateTodo wf_UpdateTodo wf_DeleteTodo wf_CreateUser queries_pure)

lemma run_snoc: "run db (qs @ [q]) = serve (run db qs) q"
  by (simp add: run_def)

lemma wf_run: "wf db \<Longrightarrow> wf (run db qs)"
  by (induction qs rule: rev_induct) (simp_all add: run_snoc wf_serve, simp add: run_def)

lemma serve_next_mono: 
  assumes "wf db" shows "todos_next_id db \<le> todos_next_id (serve db q)"
proof (cases q)
  case (ReqCreateTodo i)
  then show ?thesis by (simp add: CreateTodo_def gorm_Create_Todo_def Let_def)
next
  case (ReqUpdateTodo i)
  then show ?thesis using UpdateTodo_frame[OF assms, of i] by simp
next
  case (ReqDeleteTodo k)
  obtain P where "snd (DeleteTodo db k) = db\<lparr>todos := filter P (todos db)\<rparr>"
    using DeleteTodo_todos by blast
  then show ?thesis using ReqDeleteTodo by simp
next
  case (ReqCreateUser i)
  then show ?thesis by (simp add: CreateUser_def gorm_Create_User_def Let_def)
qed (simp_all add: queries_pure)

lemma run_next_mono: "wf db \<Longrightarrow> todos_next_id db \<le> todos_next_id (run db qs)"
proof (induction qs rule: rev_induct)
  case Nil
  then show ?case by (simp add: run_def)
next
  case (snoc q qs)
  have a: "todos_next_id db \<le> todos_next_id (run db qs)"
    using snoc.IH[OF snoc.prems] .
  have b: "todos_next_id (run db qs) \<le> todos_next_id (serve (run db qs) q)"
    using serve_next_mono[OF wf_run[OF snoc.prems]] .
  show ?case unfolding run_snoc using a b by (rule order_trans)
qed

lemma serve_back:
  assumes "wf db" "r' \<in> set (todos (serve db q))"
  shows "(\<exists>r\<in>set (todos db). frame r = frame r') \<or> todos_next_id db \<le> t_id r'"
proof (cases q)
  case (ReqCreateTodo i)
  then show ?thesis using assms(2)
    by (auto simp: CreateTodo_def gorm_Create_Todo_def Let_def split: if_splits)
next
  case (ReqUpdateTodo i)
  have "frame r' \<in> set (map frame (todos (snd (UpdateTodo db i))))"
    using assms(2) ReqUpdateTodo by simp
  then have "frame r' \<in> set (map frame (todos db))"
    using UpdateTodo_frame[OF assms(1), of i] by simp
  then show ?thesis by auto
next
  case (ReqDeleteTodo k)
  obtain P where "snd (DeleteTodo db k) = db\<lparr>todos := filter P (todos db)\<rparr>"
    using DeleteTodo_todos by blast
  then show ?thesis using ReqDeleteTodo assms(2) by auto
next
  case (ReqCreateUser i)
  then show ?thesis using assms(2)
    by (auto simp: CreateUser_def gorm_Create_User_def Let_def split: if_splits)
qed (use assms(2) in \<open>auto simp: queries_pure\<close>)

lemma serve_other_keeps_row:
  assumes "wf db" "r \<in> set (todos db)" "r' \<in> set (todos (serve db q))" "t_id r' = t_id r"
    and "\<And>i. q \<noteq> ReqUpdateTodo i"
  shows "r' = r"
proof -
  have "r' \<in> set (todos db)"
  proof (cases q)
    case (ReqCreateTodo i)
    have "t_id r' < todos_next_id db" using wf_D(2)[OF assms(1,2)] assms(4) by simp
    then show ?thesis using assms(3) ReqCreateTodo
      by (auto simp: CreateTodo_def gorm_Create_Todo_def Let_def split: if_splits)
  next
    case (ReqUpdateTodo i)
    then show ?thesis using assms(5) by simp
  next
    case (ReqDeleteTodo k)
    obtain P where "snd (DeleteTodo db k) = db\<lparr>todos := filter P (todos db)\<rparr>"
      using DeleteTodo_todos by blast
    then show ?thesis using ReqDeleteTodo assms(3) by auto
  next
    case (ReqCreateUser i)
    then show ?thesis using assms(3)
      by (auto simp: CreateUser_def gorm_Create_User_def Let_def split: if_splits)
  qed (use assms(3) in \<open>auto simp: queries_pure\<close>)
  then show ?thesis using wf_unique[OF assms(1,2)] assms(4) by simp
qed

lemma wf_reachable: "wf (run fresh_DB qs)"
  using wf_run[OF wf_fresh_DB] .

section \<open>The error a resolver returns\<close>

lemma resolvers_nil_error:
  "nil_error (fst (CreateTodo db nt))"
  "nil_error (fst (UpdateTodo db et))"
  "nil_error (fst (DeleteTodo db k))"
  "nil_error (fst (CreateUser db nu))"
  "nil_error (fst (query_Todos db))"
  "nil_error (fst (query_Users db))"
  "nil_error (fst (query_Todo db (Some ft)))"
  by (simp_all add: nil_error_def CreateTodo_def UpdateTodo_def DeleteTodo_def CreateUser_def
      query_Todos_def query_Users_def query_Todo_def Let_def split_def)

section \<open>Preloading the owner\<close>

lemma preload_User_cols:
  "todo_ID (preload_User db t) = todo_ID t \<and> todo_Text (preload_User db t) = todo_Text t \<and>
   todo_Done (preload_User db t) = todo_Done t \<and> todo_UserID (preload_User db t) = todo_UserID t"
  by (simp add: preload_User_def split: list.splits)

lemma preload_User_found:
  assumes "wf db" "u \<in> set (users db)" "u_id u = todo_UserID t"
  shows "todo_User (preload_User db t) = User (u_id u) (u_name u) []"
proof -
  have "0 < u_id u" using assms(1,2) by (auto simp: wf_def list_all_iff)
  then have nz: "todo_UserID t \<noteq> 0" using assms(3) by simp
  have "distinct (map u_id (users db))" using assms(1) by (simp add: wf_def)
  then have "filter (\<lambda>x. u_id x = u_id u) (users db) = [u]"
    using assms(2) by (rule filter_key_unique)
  then show ?thesis using nz assms(3) by (simp add: preload_User_def scan_User_def)
qed

section \<open>C1: an id that is not stored\<close>

text \<open>
  C1 (as amended). For an id that identifies no stored todo, all three lookups return a
  nil error, whatever the id. \<^verbatim>\<open>Todo\<close> (the fetch) returns the zero-value \<^verbatim>\<open>Todo\<close>. For
  such an id other than 0, \<^verbatim>\<open>DeleteTodo\<close> returns a \<^verbatim>\<open>Todo\<close> that is zero except for its
  \<^verbatim>\<open>ID\<close>, which is the requested id, and \<^verbatim>\<open>UpdateTodo\<close> returns one that is zero except for
  its \<^verbatim>\<open>ID\<close> and its \<^verbatim>\<open>Text\<close>, which are the requested id and the new text. This holds
  whether or not the storage calls succeed.
\<close>

theorem C1_miss_returns:
  assumes "\<not> stored_Todo db k"
  shows "nil_error (fst (UpdateTodo db \<lparr>edit_ID = k, edit_Text = text\<rparr>)) \<and>
         nil_error (fst (DeleteTodo db k)) \<and>
         fst (query_Todo db (Some \<lparr>fetch_ID = k\<rparr>)) = Returned zero_Todo None \<and>
         (k \<noteq> 0 \<longrightarrow>
            fst (UpdateTodo db \<lparr>edit_ID = k, edit_Text = text\<rparr>)
              = Returned (Todo k text False 0 zero_User) None \<and>
            fst (DeleteTodo db k) = Returned (Todo k [] False 0 zero_User) None)"
proof -
  obtain e where q: "gorm_First db True zero_Todo (Some k) = (zero_Todo, Some e, db)"
    using gorm_First_inline_miss[OF assms] by blast
  have a: "fst (query_Todo db (Some \<lparr>fetch_ID = k\<rparr>)) = Returned zero_Todo None"
    by (simp add: query_Todo_def q)
  have b: "fst (UpdateTodo db \<lparr>edit_ID = k, edit_Text = text\<rparr>)
              = Returned (Todo k text False 0 zero_User) None"
       and c: "fst (DeleteTodo db k) = Returned (Todo k [] False 0 zero_User) None"
    if nz: "k \<noteq> 0"
  proof -
    obtain e' where m: "gorm_First db False (Todo k [] False 0 zero_User) None
                        = (Todo k [] False 0 zero_User, Some e', db)"
      using gorm_First_miss[OF assms nz, of "Todo k [] False 0 zero_User"] by auto
    show "fst (UpdateTodo db \<lparr>edit_ID = k, edit_Text = text\<rparr>)
              = Returned (Todo k text False 0 zero_User) None"
      by (simp add: UpdateTodo_def m gorm_Update_Todo_def Let_def)
    show "fst (DeleteTodo db k) = Returned (Todo k [] False 0 zero_User) None"
      by (simp add: DeleteTodo_def m gorm_Delete_Todo_def Let_def)
  qed
  have n: "nil_error (fst (UpdateTodo db \<lparr>edit_ID = k, edit_Text = text\<rparr>))"
    "nil_error (fst (DeleteTodo db k))"
    by (rule resolvers_nil_error)+
  from n a b c show ?thesis by blast
qed

theorem C1_miss_returns_witness:
  "\<not> stored_Todo sample_DB 99 \<and>
   nil_error (fst (UpdateTodo sample_DB \<lparr>edit_ID = 99, edit_Text = ''x''\<rparr>)) \<and>
   nil_error (fst (DeleteTodo sample_DB 99)) \<and>
   fst (query_Todo sample_DB (Some \<lparr>fetch_ID = 99\<rparr>)) = Returned zero_Todo None \<and>
   fst (UpdateTodo sample_DB \<lparr>edit_ID = 99, edit_Text = ''x''\<rparr>)
     = Returned (Todo 99 ''x'' False 0 zero_User) None \<and>
   fst (DeleteTodo sample_DB 99) = Returned (Todo 99 [] False 0 zero_User) None"
proof -
  have h: "\<not> stored_Todo sample_DB 99"
    by (simp add: stored_Todo_def sample_DB_def)
  show ?thesis using h C1_miss_returns [OF h, of "''x''"] by (simp add: nil_error_def)
qed

text \<open>
  The claim as stated fails: on a table without a row 99, \<^verbatim>\<open>UpdateTodo\<close> of id 99 returns
  a \<^verbatim>\<open>Todo\<close> that carries the id and the text of the request, not the zero value.
\<close>

theorem C1_zero_value_counterexample:
  "\<not> stored_Todo sample_DB 99 \<and>
   fst (UpdateTodo sample_DB \<lparr>edit_ID = 99, edit_Text = ''x''\<rparr>)
     = Returned (Todo 99 ''x'' False 0 zero_User) None \<and>
   Todo 99 ''x'' False 0 zero_User \<noteq> zero_Todo"
  by (simp add: stored_Todo_def sample_DB_def UpdateTodo_def gorm_First_def gorm_Update_Todo_def
      pk_cond_def inline_cond_def zero_Todo_def fails_def Let_def)

section \<open>C2: updating a stored todo\<close>

text \<open>
  C2. In a well-formed state with a working driver, \<^verbatim>\<open>UpdateTodo\<close> of the id of a stored
  row returns a \<^verbatim>\<open>Todo\<close> with that id, the new text, and the \<^verbatim>\<open>Done\<close> and \<^verbatim>\<open>UserID\<close> the
  row had before the call: the resolver loads the whole row, sets \<^verbatim>\<open>Text\<close> and writes the
  struct back. The id, done and owner columns of every stored row are as before.
\<close>

theorem C2_update_returns:
  assumes "wf db" "driver_ok db" "r \<in> set (todos db)"
  shows "fst (UpdateTodo db \<lparr>edit_ID = t_id r, edit_Text = text\<rparr>)
           = Returned (Todo (t_id r) text (t_done r) (t_user_id r) zero_User) None \<and>
         map frame (todos (snd (UpdateTodo db \<lparr>edit_ID = t_id r, edit_Text = text\<rparr>)))
           = map frame (todos db)"
proof -
  have nf: "\<not> fails db SELECT_todos" using driver_ok_fails[OF assms(2)] by simp
  have F: "gorm_First db False (Todo (t_id r) [] False 0 zero_User) None
           = (Todo (t_id r) (t_text r) (t_done r) (t_user_id r) zero_User, None, db)"
    using gorm_First_hit[OF assms(1) nf assms(3), of "Todo (t_id r) [] False 0 zero_User"]
    by (simp add: scan_Todo_def)
  have "fst (UpdateTodo db \<lparr>edit_ID = t_id r, edit_Text = text\<rparr>)
           = Returned (Todo (t_id r) text (t_done r) (t_user_id r) zero_User) None"
    by (simp add: UpdateTodo_def F gorm_Update_Todo_def Let_def)
  then show ?thesis using UpdateTodo_frame[OF assms(1)] by simp
qed

theorem C2_update_returns_witness:
  "wf sample_DB \<and> driver_ok sample_DB \<and>
   \<lparr>t_id = 2, t_text = ''b'', t_done = False, t_user_id = 1\<rparr> \<in> set (todos sample_DB) \<and>
   fst (UpdateTodo sample_DB \<lparr>edit_ID = 2, edit_Text = ''z''\<rparr>)
     = Returned (Todo 2 ''z'' False 1 zero_User) None \<and>
   map frame (todos (snd (UpdateTodo sample_DB \<lparr>edit_ID = 2, edit_Text = ''z''\<rparr>)))
     = map frame (todos sample_DB)"
proof -
  have a: "wf sample_DB" by (rule wf_sample_DB)
  have b: "driver_ok sample_DB" by (rule driver_ok_sample_DB)
  have c: "\<lparr>t_id = 2, t_text = ''b'', t_done = False, t_user_id = 1\<rparr> \<in> set (todos sample_DB)"
    by (simp add: sample_DB_def)
  show ?thesis using a b c C2_update_returns [OF a b c, of "''z''"] by simp
qed

section \<open>C3: creating a todo\<close>

text \<open>
  C3 (as amended). In a well-formed state in which the \<^verbatim>\<open>INSERT\<close> does not fail for want
  of a connection and the id counter is within the range of the id column,
  \<^verbatim>\<open>CreateTodo\<close> of any text of at most 255
  characters and any owner id within the signed 32-bit range appends one row with
  \<^verbatim>\<open>done = false\<close>, that text and that owner id, under the id the table's counter
  generates, which is positive and was not stored before; it returns the \<^verbatim>\<open>Todo\<close> with
  these values and a nil error. The owner id is not looked up in the \<^verbatim>\<open>users\<close> table:
  nothing else is assumed of \<open>uid\<close>.
\<close>

theorem C3_create_todo:
  assumes "wf db" "\<not> fails db INSERT_todos" "varchar255 text" "int32 uid"
    "int32 (todos_next_id db)"
  shows "CreateTodo db \<lparr>new_Text = text, new_UserID = uid\<rparr> =
           (Returned (Todo (todos_next_id db) text False uid zero_User) None,
            db\<lparr>todos := todos db @ [\<lparr>t_id = todos_next_id db, t_text = text, t_done = False,
                                       t_user_id = uid\<rparr>],
               todos_next_id := todos_next_id db + 1\<rparr>) \<and>
         0 < todos_next_id db \<and> \<not> stored_Todo db (todos_next_id db)"
proof -
  have "\<not> stored_Todo db (todos_next_id db)"
    using wf_D(2)[OF assms(1)] by (fastforce simp: stored_Todo_def)
  moreover have "0 < todos_next_id db" using assms(1) by (simp add: wf_def)
  moreover have "fits_todo (todos_next_id db) text uid"
    using assms(3-5) by (simp add: fits_todo_def)
  ultimately show ?thesis using assms(2)
    by (simp add: CreateTodo_def gorm_Create_Todo_def Let_def)
qed

theorem C3_create_todo_witness:
  "wf sample_DB \<and> \<not> fails sample_DB INSERT_todos \<and> varchar255 ''c'' \<and> int32 42 \<and>
   int32 (todos_next_id sample_DB) \<and>
   fst (CreateTodo sample_DB \<lparr>new_Text = ''c'', new_UserID = 42\<rparr>)
     = Returned (Todo 3 ''c'' False 42 zero_User) None \<and>
   todos (snd (CreateTodo sample_DB \<lparr>new_Text = ''c'', new_UserID = 42\<rparr>))
     = todos sample_DB @ [\<lparr>t_id = 3, t_text = ''c'', t_done = False, t_user_id = 42\<rparr>] \<and>
   \<not> stored_Todo sample_DB 3"
proof -
  have a: "wf sample_DB" by (rule wf_sample_DB)
  have b: "\<not> fails sample_DB INSERT_todos" by (simp add: fails_def sample_DB_def)
  have n: "todos_next_id sample_DB = 3" by (simp add: sample_DB_def)
  have c: "varchar255 ''c''" by (simp add: varchar255_def)
  have d: "int32 42" by (simp add: int32_def)
  have e: "int32 (todos_next_id sample_DB)" by (simp add: n int32_def)
  show ?thesis using a b c d e C3_create_todo [OF a b c d e] by (simp add: n)
qed

text \<open>
  The claim as stated fails: it holds of no text longer than the column and of no owner
  id outside the column's range. With user 1 stored, \<^verbatim>\<open>CreateTodo\<close> of a text of 256
  characters inserts nothing and returns a \<^verbatim>\<open>Todo\<close> with id 0; so does \<^verbatim>\<open>CreateTodo\<close> of
  owner id 2147483648.
\<close>

theorem C3_every_input_counterexample:
  "length (replicate 256 (CHR ''a'')) = 256 \<and>
   CreateTodo sample_DB \<lparr>new_Text = replicate 256 (CHR ''a''), new_UserID = 1\<rparr> =
     (Returned (Todo 0 (replicate 256 (CHR ''a'')) False 1 zero_User) None, sample_DB) \<and>
   CreateTodo sample_DB \<lparr>new_Text = ''a'', new_UserID = 2147483648\<rparr> =
     (Returned (Todo 0 ''a'' False 2147483648 zero_User) None, sample_DB)"
  by (simp add: CreateTodo_def gorm_Create_Todo_def fits_todo_def int32_def varchar255_def
      fails_def sample_DB_def Let_def)

section \<open>C4: deleting a stored todo\<close>

text \<open>
  C4. In a well-formed state with a working driver, \<^verbatim>\<open>DeleteTodo\<close> of the id of a stored
  row returns the row as it was before the \<^verbatim>\<open>DELETE\<close> (its id, text, done and owner id);
  afterwards the table holds the other rows only, no row has that id, and fetching the
  id returns the zero-value \<^verbatim>\<open>Todo\<close>.
\<close>

theorem C4_delete_snapshot:
  assumes "wf db" "driver_ok db" "r \<in> set (todos db)"
  shows "fst (DeleteTodo db (t_id r))
           = Returned (Todo (t_id r) (t_text r) (t_done r) (t_user_id r) zero_User) None \<and>
         todos (snd (DeleteTodo db (t_id r))) = filter (\<lambda>x. t_id x \<noteq> t_id r) (todos db) \<and>
         \<not> stored_Todo (snd (DeleteTodo db (t_id r))) (t_id r) \<and>
         fst (query_Todo (snd (DeleteTodo db (t_id r))) (Some \<lparr>fetch_ID = t_id r\<rparr>))
           = Returned zero_Todo None"
proof -
  let ?db' = "snd (DeleteTodo db (t_id r))"
  have nz: "t_id r \<noteq> 0" using wf_D(1)[OF assms(1,3)] by simp
  have nf: "\<not> fails db SELECT_todos" using driver_ok_fails[OF assms(2)] by simp
  have F: "gorm_First db False (Todo (t_id r) [] False 0 zero_User) None
           = (Todo (t_id r) (t_text r) (t_done r) (t_user_id r) zero_User, None, db)"
    using gorm_First_hit[OF assms(1) nf assms(3), of "Todo (t_id r) [] False 0 zero_User"]
    by (simp add: scan_Todo_def)
  have D: "DeleteTodo db (t_id r) =
           (Returned (Todo (t_id r) (t_text r) (t_done r) (t_user_id r) zero_User) None,
            db\<lparr>todos := filter (\<lambda>x. t_id x \<noteq> t_id r) (todos db)\<rparr>)"
    using nz by (simp add: DeleteTodo_def F gorm_Delete_Todo_def Let_def pk_cond_def
        driver_ok_fails[OF assms(2)])
  have gone: "\<not> stored_Todo ?db' (t_id r)"
    by (auto simp: D stored_Todo_def)
  obtain e where q: "gorm_First ?db' True zero_Todo (Some (t_id r)) = (zero_Todo, Some e, ?db')"
    using gorm_First_inline_miss[OF gone] by blast
  have "fst (query_Todo ?db' (Some \<lparr>fetch_ID = t_id r\<rparr>)) = Returned zero_Todo None"
    by (simp add: query_Todo_def q)
  then show ?thesis using gone by (simp add: D)
qed

theorem C4_delete_snapshot_witness:
  "wf sample_DB \<and> driver_ok sample_DB \<and>
   \<lparr>t_id = 2, t_text = ''b'', t_done = False, t_user_id = 1\<rparr> \<in> set (todos sample_DB) \<and>
   fst (DeleteTodo sample_DB 2) = Returned (Todo 2 ''b'' False 1 zero_User) None \<and>
   \<not> stored_Todo (snd (DeleteTodo sample_DB 2)) 2 \<and>
   fst (query_Todo (snd (DeleteTodo sample_DB 2)) (Some \<lparr>fetch_ID = 2\<rparr>))
     = Returned zero_Todo None"
proof -
  have a: "wf sample_DB" by (rule wf_sample_DB)
  have b: "driver_ok sample_DB" by (rule driver_ok_sample_DB)
  have c: "\<lparr>t_id = 2, t_text = ''b'', t_done = False, t_user_id = 1\<rparr> \<in> set (todos sample_DB)"
    by (simp add: sample_DB_def)
  show ?thesis using a b c C4_delete_snapshot [OF a b c] by simp
qed

section \<open>C5: the queries change nothing\<close>

text \<open>
  C5. \<^verbatim>\<open>Todos\<close>, \<^verbatim>\<open>Users\<close> and \<^verbatim>\<open>Todo\<close> leave the database exactly as it was, in every state
  and for every input (also when statements fail, and when \<^verbatim>\<open>Todo\<close> panics on a nil
  input).
\<close>

theorem C5_queries_no_effect:
  "snd (query_Todos db) = db \<and> snd (query_Users db) = db \<and> snd (query_Todo db input) = db"
  by (simp add: query_Todos_def query_Users_def query_Todo_def gorm_Find_Todos_def
      gorm_Find_Users_def gorm_First_def gorm_Preload_User_def Let_def
      split: option.splits list.splits)

section \<open>C6: done and owner never change\<close>

text \<open>
  C6. Start in any well-formed state (every state reachable from a fresh database is
  one: lemma \<open>wf_reachable\<close>) and serve any sequence of requests. A row that is stored
  afterwards under the id of a row stored at the start has the same \<^verbatim>\<open>done\<close> and the same
  owner id: no request changes them, so the text is the only column of a stored row that
  can change. Ids are never generated twice, so the row under that id is the one that was
  created with it. And the text changes through \<^verbatim>\<open>UpdateTodo\<close> only: any other request
  leaves a row that is still stored exactly as it was.
\<close>

theorem C6_done_owner_unchanged:
  assumes "wf db" "r \<in> set (todos db)"
  shows "(\<forall>r'\<in>set (todos (run db reqs)).
            t_id r' = t_id r \<longrightarrow> t_done r' = t_done r \<and> t_user_id r' = t_user_id r) \<and>
         (\<forall>r'\<in>set (todos (serve db q)).
            t_id r' = t_id r \<longrightarrow> (\<forall>i. q \<noteq> ReqUpdateTodo i) \<longrightarrow> r' = r)"
proof -
  have multi: "t_done r' = t_done r \<and> t_user_id r' = t_user_id r"
    if "r' \<in> set (todos (run db reqs))" "t_id r' = t_id r" for r'
    using that
  proof (induction reqs arbitrary: r' rule: rev_induct)
    case Nil
    then have "r' = r" using wf_unique[OF assms(1,2), of r'] by (simp add: run_def)
    then show ?case by simp
  next
    case (snoc q qs)
    have w: "wf (run db qs)" using wf_run[OF assms(1)] .
    have m: "r' \<in> set (todos (serve (run db qs) q))" using snoc.prems(1) by (simp add: run_snoc)
    from serve_back[OF w m] show ?case
    proof
      assume "\<exists>x\<in>set (todos (run db qs)). frame x = frame r'"
      then obtain x where x: "x \<in> set (todos (run db qs))" "frame x = frame r'" by blast
      then have "t_id x = t_id r" using snoc.prems(2) by (simp add: frame_def)
      from snoc.IH[OF x(1) this] x(2) show ?thesis by (simp add: frame_def)
    next
      assume "todos_next_id (run db qs) \<le> t_id r'"
      moreover have "t_id r < todos_next_id db" using wf_D(2)[OF assms(1,2)] .
      moreover have "todos_next_id db \<le> todos_next_id (run db qs)"
        using run_next_mono[OF assms(1)] .
      ultimately show ?thesis using snoc.prems(2) by simp
    qed
  qed
  have single: "r' = r"
    if "r' \<in> set (todos (serve db q))" "t_id r' = t_id r" "\<forall>i. q \<noteq> ReqUpdateTodo i" for r'
    using serve_other_keeps_row[OF assms that(1,2)] that(3) by blast
  from multi single show ?thesis by blast
qed

theorem C6_done_owner_unchanged_witness:
  "wf sample_DB \<and>
   \<lparr>t_id = 1, t_text = ''a'', t_done = False, t_user_id = 1\<rparr> \<in> set (todos sample_DB) \<and>
   \<lparr>t_id = 1, t_text = ''z'', t_done = False, t_user_id = 1\<rparr>
     \<in> set (todos (run sample_DB [ReqUpdateTodo \<lparr>edit_ID = 1, edit_Text = ''z''\<rparr>,
                                    ReqDeleteTodo 2,
                                    ReqCreateTodo \<lparr>new_Text = ''c'', new_UserID = 9\<rparr>])) \<and>
   t_done \<lparr>t_id = 1, t_text = ''z'', t_done = False, t_user_id = 1\<rparr>
     = t_done \<lparr>t_id = 1, t_text = ''a'', t_done = False, t_user_id = 1\<rparr> \<and>
   t_user_id \<lparr>t_id = 1, t_text = ''z'', t_done = False, t_user_id = 1\<rparr>
     = t_user_id \<lparr>t_id = 1, t_text = ''a'', t_done = False, t_user_id = 1\<rparr> \<and>
   \<lparr>t_id = 1, t_text = ''a'', t_done = False, t_user_id = 1\<rparr>
     \<in> set (todos (serve sample_DB (ReqDeleteTodo 2)))"
proof -
  let ?r = "\<lparr>t_id = 1, t_text = ''a'', t_done = False, t_user_id = 1\<rparr>"
  let ?r' = "\<lparr>t_id = 1, t_text = ''z'', t_done = False, t_user_id = 1\<rparr>"
  let ?qs = "[ReqUpdateTodo \<lparr>edit_ID = 1, edit_Text = ''z''\<rparr>, ReqDeleteTodo 2,
              ReqCreateTodo \<lparr>new_Text = ''c'', new_UserID = 9\<rparr>]"
  have a: "wf sample_DB" by (rule wf_sample_DB)
  have b: "?r \<in> set (todos sample_DB)"
    by (simp add: sample_DB_def)
  have c: "?r' \<in> set (todos (run sample_DB ?qs))"
    by (simp add: run_def sample_DB_def UpdateTodo_def DeleteTodo_def CreateTodo_def
        gorm_First_def gorm_Update_Todo_def gorm_Delete_Todo_def gorm_Create_Todo_def
        pk_cond_def inline_cond_def scan_Todo_def assign_Todo_def fits_todo_def int32_def
        varchar255_def fails_def Let_def)
  have d: "?r \<in> set (todos (serve sample_DB (ReqDeleteTodo 2)))"
    by (simp add: sample_DB_def DeleteTodo_def gorm_First_def gorm_Delete_Todo_def
        pk_cond_def inline_cond_def scan_Todo_def fails_def Let_def)
  note t = C6_done_owner_unchanged [OF a b, of ?qs "ReqDeleteTodo 2"]
  from t c have e: "t_done ?r' = t_done ?r \<and> t_user_id ?r' = t_user_id ?r" by simp
  show ?thesis using a b c d e by blast
qed

section \<open>C7: storage errors are dropped\<close>

text \<open>
  C7 (as amended). If an underlying storage call fails during a request, the operation
  does not fail: every resolver returns with a nil error, in every state and for every
  input, so the storage-driver error is discarded and never reaches the caller; nothing
  is retried and nothing is translated. Every GORM call whose statement fails reports the
  driver error. That holds of a request whose only call fails, and of a request whose
  second call fails after a lookup that succeeded: when the connection is lost before
  the \<^verbatim>\<open>DELETE\<close> of \<^verbatim>\<open>DeleteTodo\<close> or the \<^verbatim>\<open>UPDATE\<close> of \<^verbatim>\<open>UpdateTodo\<close>, or when the server
  rejects that \<^verbatim>\<open>UPDATE\<close> or the \<^verbatim>\<open>INSERT\<close> of \<^verbatim>\<open>CreateTodo\<close> for a text longer than its
  column, the resolver returns the struct it holds with a nil error and the tables are
  as before.
\<close>

theorem C7_errors_dropped:
  "nil_error (fst (CreateTodo db nt)) \<and>
   nil_error (fst (UpdateTodo db et)) \<and>
   nil_error (fst (DeleteTodo db k)) \<and>
   nil_error (fst (CreateUser db nu)) \<and>
   nil_error (fst (query_Todos db)) \<and>
   nil_error (fst (query_Users db)) \<and>
   nil_error (fst (query_Todo db (Some ft))) \<and>
   (fails db INSERT_todos \<longrightarrow>
      fst (snd (gorm_Create_Todo db v)) = Some ErrDriver \<and>
      CreateTodo db nt = (Returned (Todo 0 (new_Text nt) False (new_UserID nt) zero_User) None, db)) \<and>
   (fails db INSERT_users \<longrightarrow>
      fst (snd (gorm_Create_User db u)) = Some ErrDriver \<and>
      CreateUser db nu = (Returned (User 0 (new_Name nu) []) None, db)) \<and>
   (fails db SELECT_todos \<longrightarrow>
      fst (snd (gorm_First db p out w)) = Some ErrDriver \<and>
      fst (snd (gorm_Find_Todos db p)) = Some ErrDriver \<and>
      query_Todos db = (Returned [] None, db) \<and>
      query_Todo db (Some ft) = (Returned zero_Todo None, db)) \<and>
   (fails db SELECT_users \<longrightarrow>
      fst (snd (gorm_Find_Users db)) = Some ErrDriver \<and>
      query_Users db = (Returned [] None, db)) \<and>
   (fails db UPDATE_todos \<longrightarrow> fst (snd (gorm_Update_Todo db v)) = Some ErrDriver) \<and>
   (fails db DELETE_todos \<longrightarrow> fst (snd (gorm_Delete_Todo db v)) = Some ErrDriver) \<and>
   (\<not> varchar255 (new_Text nt) \<longrightarrow>
      fst (snd (gorm_Create_Todo db (Todo 0 (new_Text nt) False (new_UserID nt) zero_User)))
        = Some ErrDriver \<and>
      CreateTodo db nt = (Returned (Todo 0 (new_Text nt) False (new_UserID nt) zero_User) None, db)) \<and>
   (wf db \<and> r \<in> set (todos db) \<and> \<not> fails db SELECT_todos \<and> fails db DELETE_todos \<longrightarrow>
      fst (snd (gorm_First db False (Todo (t_id r) [] False 0 zero_User) None)) = None \<and>
      fst (snd (gorm_Delete_Todo db (Todo (t_id r) (t_text r) (t_done r) (t_user_id r) zero_User)))
        = Some ErrDriver \<and>
      DeleteTodo db (t_id r)
        = (Returned (Todo (t_id r) (t_text r) (t_done r) (t_user_id r) zero_User) None, db)) \<and>
   (wf db \<and> r \<in> set (todos db) \<and> \<not> fails db SELECT_todos \<and>
    (fails db UPDATE_todos \<or> \<not> varchar255 long) \<longrightarrow>
      fst (snd (gorm_First db False (Todo (t_id r) [] False 0 zero_User) None)) = None \<and>
      fst (snd (gorm_Update_Todo db (Todo (t_id r) long (t_done r) (t_user_id r) zero_User)))
        = Some ErrDriver \<and>
      UpdateTodo db \<lparr>edit_ID = t_id r, edit_Text = long\<rparr>
        = (Returned (Todo (t_id r) long (t_done r) (t_user_id r) zero_User) None, db))"
proof -
  have it: "fst (snd (gorm_Create_Todo db v)) = Some ErrDriver \<and>
      CreateTodo db nt = (Returned (Todo 0 (new_Text nt) False (new_UserID nt) zero_User) None, db)"
    if "fails db INSERT_todos"
    using that by (simp add: CreateTodo_def gorm_Create_Todo_def)
  have iu: "fst (snd (gorm_Create_User db u)) = Some ErrDriver \<and>
      CreateUser db nu = (Returned (User 0 (new_Name nu) []) None, db)"
    if "fails db INSERT_users"
    using that by (simp add: CreateUser_def gorm_Create_User_def)
  have st: "fst (snd (gorm_First db p out w)) = Some ErrDriver \<and>
      fst (snd (gorm_Find_Todos db p)) = Some ErrDriver \<and>
      query_Todos db = (Returned [] None, db) \<and>
      query_Todo db (Some ft) = (Returned zero_Todo None, db)"
    if "fails db SELECT_todos"
    using that by (simp add: query_Todos_def query_Todo_def gorm_First_def gorm_Find_Todos_def)
  have su: "fst (snd (gorm_Find_Users db)) = Some ErrDriver \<and>
      query_Users db = (Returned [] None, db)"
    if "fails db SELECT_users"
    using that by (simp add: query_Users_def gorm_Find_Users_def)
  have ut: "fst (snd (gorm_Update_Todo db v)) = Some ErrDriver" if "fails db UPDATE_todos"
    using that by (simp add: gorm_Update_Todo_def)
  have dt: "fst (snd (gorm_Delete_Todo db v)) = Some ErrDriver" if "fails db DELETE_todos"
    using that by (simp add: gorm_Delete_Todo_def)
  have ins: "fst (snd (gorm_Create_Todo db (Todo 0 (new_Text nt) False (new_UserID nt) zero_User)))
        = Some ErrDriver \<and>
      CreateTodo db nt = (Returned (Todo 0 (new_Text nt) False (new_UserID nt) zero_User) None, db)"
    if "\<not> varchar255 (new_Text nt)"
    using that by (simp add: CreateTodo_def gorm_Create_Todo_def fits_todo_def Let_def)
  have F: "gorm_First db False (Todo (t_id r) [] False 0 zero_User) None
             = (Todo (t_id r) (t_text r) (t_done r) (t_user_id r) zero_User, None, db)"
    if "wf db" "r \<in> set (todos db)" "\<not> fails db SELECT_todos"
    using gorm_First_hit[OF that(1,3,2), of "Todo (t_id r) [] False 0 zero_User"]
    by (simp add: scan_Todo_def)
  have del: "fst (snd (gorm_First db False (Todo (t_id r) [] False 0 zero_User) None)) = None \<and>
      fst (snd (gorm_Delete_Todo db (Todo (t_id r) (t_text r) (t_done r) (t_user_id r) zero_User)))
        = Some ErrDriver \<and>
      DeleteTodo db (t_id r)
        = (Returned (Todo (t_id r) (t_text r) (t_done r) (t_user_id r) zero_User) None, db)"
    if h: "wf db" "r \<in> set (todos db)" "\<not> fails db SELECT_todos" "fails db DELETE_todos"
    using h(4) by (simp add: F[OF h(1-3)] DeleteTodo_def gorm_Delete_Todo_def)
  have upd: "fst (snd (gorm_First db False (Todo (t_id r) [] False 0 zero_User) None)) = None \<and>
      fst (snd (gorm_Update_Todo db (Todo (t_id r) long (t_done r) (t_user_id r) zero_User)))
        = Some ErrDriver \<and>
      UpdateTodo db \<lparr>edit_ID = t_id r, edit_Text = long\<rparr>
        = (Returned (Todo (t_id r) long (t_done r) (t_user_id r) zero_User) None, db)"
    if h: "wf db" "r \<in> set (todos db)" "\<not> fails db SELECT_todos"
      "fails db UPDATE_todos \<or> \<not> varchar255 long"
  proof -
    have nz: "t_id r \<noteq> 0" using wf_D(1)[OF h(1,2)] by simp
    have ex: "list_ex (pk_cond (t_id r)) (todos db)"
      using h(2) by (auto simp: list_ex_iff pk_cond_def)
    have U: "gorm_Update_Todo db (Todo (t_id r) long (t_done r) (t_user_id r) zero_User)
             = (Todo (t_id r) long (t_done r) (t_user_id r) zero_User, Some ErrDriver, db)"
      using h(4) nz ex by (auto simp: gorm_Update_Todo_def fits_todo_def)
    show ?thesis by (simp add: F[OF h(1-3)] U UpdateTodo_def)
  qed
  note n = resolvers_nil_error [of db]
  have it': "fails db INSERT_todos \<longrightarrow>
      fst (snd (gorm_Create_Todo db v)) = Some ErrDriver \<and>
      CreateTodo db nt = (Returned (Todo 0 (new_Text nt) False (new_UserID nt) zero_User) None, db)"
    using it by (rule impI)
  have iu': "fails db INSERT_users \<longrightarrow>
      fst (snd (gorm_Create_User db u)) = Some ErrDriver \<and>
      CreateUser db nu = (Returned (User 0 (new_Name nu) []) None, db)"
    using iu by (rule impI)
  have st': "fails db SELECT_todos \<longrightarrow>
      fst (snd (gorm_First db p out w)) = Some ErrDriver \<and>
      fst (snd (gorm_Find_Todos db p)) = Some ErrDriver \<and>
      query_Todos db = (Returned [] None, db) \<and>
      query_Todo db (Some ft) = (Returned zero_Todo None, db)"
    using st by (rule impI)
  have su': "fails db SELECT_users \<longrightarrow>
      fst (snd (gorm_Find_Users db)) = Some ErrDriver \<and>
      query_Users db = (Returned [] None, db)"
    using su by (rule impI)
  have ut': "fails db UPDATE_todos \<longrightarrow> fst (snd (gorm_Update_Todo db v)) = Some ErrDriver"
    using ut by (rule impI)
  have dt': "fails db DELETE_todos \<longrightarrow> fst (snd (gorm_Delete_Todo db v)) = Some ErrDriver"
    using dt by (rule impI)
  have ins': "\<not> varchar255 (new_Text nt) \<longrightarrow>
      fst (snd (gorm_Create_Todo db (Todo 0 (new_Text nt) False (new_UserID nt) zero_User)))
        = Some ErrDriver \<and>
      CreateTodo db nt = (Returned (Todo 0 (new_Text nt) False (new_UserID nt) zero_User) None, db)"
    using ins by (rule impI)
  have del': "wf db \<and> r \<in> set (todos db) \<and> \<not> fails db SELECT_todos \<and> fails db DELETE_todos \<longrightarrow>
      fst (snd (gorm_First db False (Todo (t_id r) [] False 0 zero_User) None)) = None \<and>
      fst (snd (gorm_Delete_Todo db (Todo (t_id r) (t_text r) (t_done r) (t_user_id r) zero_User)))
        = Some ErrDriver \<and>
      DeleteTodo db (t_id r)
        = (Returned (Todo (t_id r) (t_text r) (t_done r) (t_user_id r) zero_User) None, db)"
    using del by blast
  have upd': "wf db \<and> r \<in> set (todos db) \<and> \<not> fails db SELECT_todos \<and>
    (fails db UPDATE_todos \<or> \<not> varchar255 long) \<longrightarrow>
      fst (snd (gorm_First db False (Todo (t_id r) [] False 0 zero_User) None)) = None \<and>
      fst (snd (gorm_Update_Todo db (Todo (t_id r) long (t_done r) (t_user_id r) zero_User)))
        = Some ErrDriver \<and>
      UpdateTodo db \<lparr>edit_ID = t_id r, edit_Text = long\<rparr>
        = (Returned (Todo (t_id r) long (t_done r) (t_user_id r) zero_User) None, db)"
    using upd by blast
  show ?thesis
    by (intro conjI) (rule n it' iu' st' su' ut' dt' ins' del' upd')+
qed

theorem C7_errors_dropped_witness:
  "wf sample_DB \<and>
   \<lparr>t_id = 1, t_text = ''a'', t_done = False, t_user_id = 1\<rparr> \<in> set (todos sample_DB) \<and>
   fails (sample_DB\<lparr>failing := [DELETE_todos]\<rparr>) DELETE_todos \<and>
   fst (snd (gorm_First (sample_DB\<lparr>failing := [DELETE_todos]\<rparr>) False
              (Todo 1 [] False 0 zero_User) None)) = None \<and>
   fst (snd (gorm_Delete_Todo (sample_DB\<lparr>failing := [DELETE_todos]\<rparr>)
              (Todo 1 ''a'' False 1 zero_User))) = Some ErrDriver \<and>
   DeleteTodo (sample_DB\<lparr>failing := [DELETE_todos]\<rparr>) 1
     = (Returned (Todo 1 ''a'' False 1 zero_User) None, sample_DB\<lparr>failing := [DELETE_todos]\<rparr>) \<and>
   nil_error (fst (DeleteTodo (sample_DB\<lparr>failing := [DELETE_todos]\<rparr>) 1)) \<and>
   fst (snd (gorm_Update_Todo sample_DB (Todo 1 (replicate 256 (CHR ''x'')) False 1 zero_User)))
     = Some ErrDriver \<and>
   UpdateTodo sample_DB \<lparr>edit_ID = 1, edit_Text = replicate 256 (CHR ''x'')\<rparr>
     = (Returned (Todo 1 (replicate 256 (CHR ''x'')) False 1 zero_User) None, sample_DB)"
proof -
  let ?r = "\<lparr>t_id = 1, t_text = ''a'', t_done = False, t_user_id = 1\<rparr>"
  let ?t = "replicate 256 (CHR ''x'')"
  let ?lost = "sample_DB\<lparr>failing := [DELETE_todos]\<rparr>"
  have a: "wf sample_DB" by (rule wf_sample_DB)
  have a': "wf ?lost" using a by (simp add: wf_def)
  have c: "?r \<in> set (todos sample_DB)" by (simp add: sample_DB_def)
  have c': "?r \<in> set (todos ?lost)" by (simp add: sample_DB_def)
  have d: "\<not> varchar255 ?t" by (simp add: varchar255_def)
  have s: "\<not> fails sample_DB SELECT_todos" by (simp add: fails_def sample_DB_def)
  have s': "\<not> fails ?lost SELECT_todos" by (simp add: fails_def)
  have f: "fails ?lost DELETE_todos" by (simp add: fails_def)
  note rejected = C7_errors_dropped [where db = sample_DB
       and r = "\<lparr>t_id = 1, t_text = ''a'', t_done = False, t_user_id = 1\<rparr>"
       and long = "replicate 256 (CHR ''x'')" and k = 1
       and nt = "\<lparr>new_Text = ''a'', new_UserID = 1\<rparr>" and et = "\<lparr>edit_ID = 1, edit_Text = ''a''\<rparr>"
       and nu = "\<lparr>new_Name = ''a''\<rparr>" and ft = "\<lparr>fetch_ID = 1\<rparr>" and v = zero_Todo
       and u = zero_User and p = False and out = zero_Todo and w = None]
  note lost = C7_errors_dropped [where db = "sample_DB\<lparr>failing := [DELETE_todos]\<rparr>"
       and r = "\<lparr>t_id = 1, t_text = ''a'', t_done = False, t_user_id = 1\<rparr>"
       and long = "''a''" and k = 1
       and nt = "\<lparr>new_Text = ''a'', new_UserID = 1\<rparr>" and et = "\<lparr>edit_ID = 1, edit_Text = ''a''\<rparr>"
       and nu = "\<lparr>new_Name = ''a''\<rparr>" and ft = "\<lparr>fetch_ID = 1\<rparr>" and v = zero_Todo
       and u = zero_User and p = False and out = zero_Todo and w = None]
  from rejected a c s d have e:
    "fst (snd (gorm_Update_Todo sample_DB (Todo 1 ?t False 1 zero_User))) = Some ErrDriver \<and>
     UpdateTodo sample_DB \<lparr>edit_ID = 1, edit_Text = ?t\<rparr>
       = (Returned (Todo 1 ?t False 1 zero_User) None, sample_DB)"
    by simp
  from lost a' c' s' f have g:
    "fst (snd (gorm_First ?lost False (Todo 1 [] False 0 zero_User) None)) = None \<and>
     fst (snd (gorm_Delete_Todo ?lost (Todo 1 ''a'' False 1 zero_User))) = Some ErrDriver \<and>
     DeleteTodo ?lost 1 = (Returned (Todo 1 ''a'' False 1 zero_User) None, ?lost) \<and>
     nil_error (fst (DeleteTodo ?lost 1))"
    by (simp add: nil_error_def)
  from a c f e g show ?thesis by blast
qed

text \<open>
  The claim as stated fails. With the \<^verbatim>\<open>INSERT\<close> failing, the \<^verbatim>\<open>Create\<close> call of
  \<^verbatim>\<open>CreateTodo\<close> reports the driver error, and \<^verbatim>\<open>CreateTodo\<close> returns a \<^verbatim>\<open>Todo\<close> with a nil
  error. With every statement working, \<^verbatim>\<open>UpdateTodo\<close> of the stored id 1 with a text of
  256 characters finds the row, the server rejects the \<^verbatim>\<open>UPDATE\<close>, and \<^verbatim>\<open>UpdateTodo\<close>
  returns a \<^verbatim>\<open>Todo\<close> with a nil error.
\<close>

theorem C7_error_returned_counterexample:
  "fst (snd (gorm_Create_Todo (fresh_DB\<lparr>failing := [INSERT_todos]\<rparr>)
              (Todo 0 ''a'' False 1 zero_User))) = Some ErrDriver \<and>
   fst (CreateTodo (fresh_DB\<lparr>failing := [INSERT_todos]\<rparr>) \<lparr>new_Text = ''a'', new_UserID = 1\<rparr>)
     = Returned (Todo 0 ''a'' False 1 zero_User) None \<and>
   fst (snd (gorm_First sample_DB False (Todo 1 [] False 0 zero_User) None)) = None \<and>
   fst (snd (gorm_Update_Todo sample_DB (Todo 1 (replicate 256 (CHR ''x'')) False 1 zero_User)))
     = Some ErrDriver \<and>
   fst (UpdateTodo sample_DB \<lparr>edit_ID = 1, edit_Text = replicate 256 (CHR ''x'')\<rparr>)
     = Returned (Todo 1 (replicate 256 (CHR ''x'')) False 1 zero_User) None"
  by (simp add: CreateTodo_def gorm_Create_Todo_def UpdateTodo_def gorm_First_def
      gorm_Update_Todo_def pk_cond_def inline_cond_def scan_Todo_def fits_todo_def int32_def
      varchar255_def fails_def sample_DB_def Let_def)

section \<open>C8: listing todos with their owner\<close>

text \<open>
  C8. In a well-formed state with a working driver, \<^verbatim>\<open>Todos\<close> returns one \<^verbatim>\<open>Todo\<close> per
  stored row, in the table's order, each with the row's columns and with the \<^verbatim>\<open>User\<close>
  field holding the id and name of the stored user the row points to. Starting with both
  tables empty, after creating one user and two todos for that user, \<^verbatim>\<open>Todos\<close> returns
  exactly those two todos, each with that user's id and name. The three creations are
  taken to succeed: the name and the two texts fit their columns, and the ids to be
  generated are within the range of the id columns.
\<close>

theorem C8_list_todos:
  assumes "wf db" "driver_ok db"
  shows "(\<exists>ts. fst (query_Todos db) = Returned ts None \<and> list_all2 (resolved db) ts (todos db)) \<and>
         (todos db = [] \<and> users db = [] \<and>
          varchar255 name \<and> varchar255 t1 \<and> varchar255 t2 \<and>
          int32 (users_next_id db) \<and> int32 (todos_next_id db + 1) \<longrightarrow>
            fst (CreateUser db \<lparr>new_Name = name\<rparr>) = Returned (User (users_next_id db) name []) None \<and>
            fst (query_Todos
                  (snd (CreateTodo
                     (snd (CreateTodo (snd (CreateUser db \<lparr>new_Name = name\<rparr>))
                            \<lparr>new_Text = t1, new_UserID = users_next_id db\<rparr>))
                     \<lparr>new_Text = t2, new_UserID = users_next_id db\<rparr>)))
              = Returned [Todo (todos_next_id db) t1 False (users_next_id db)
                            (User (users_next_id db) name []),
                          Todo (todos_next_id db + 1) t2 False (users_next_id db)
                            (User (users_next_id db) name [])] None)"
proof -
  let ?g = "\<lambda>r. preload_User db (scan_Todo r zero_Todo)"
  note ok = driver_ok_fails[OF assms(2)]
  have q: "fst (query_Todos db) = Returned (map ?g (todos db)) None"
    by (simp add: query_Todos_def gorm_Find_Todos_def Let_def ok comp_def)
  have "resolved db (?g r) r" for r
    using preload_User_cols[of db "scan_Todo r zero_Todo"]
      preload_User_found[OF assms(1), of _ "scan_Todo r zero_Todo"]
    by (auto simp: resolved_def scan_Todo_def list_all_iff)
  then have "list_all2 (resolved db) (map ?g (todos db)) (todos db)"
    by (simp add: list_all2_map1 list_all2_same)
  then have general: "\<exists>ts. fst (query_Todos db) = Returned ts None \<and> list_all2 (resolved db) ts (todos db)"
    using q by blast
  have scen: "fst (CreateUser db \<lparr>new_Name = name\<rparr>) = Returned (User (users_next_id db) name []) None \<and>
            fst (query_Todos
                  (snd (CreateTodo
                     (snd (CreateTodo (snd (CreateUser db \<lparr>new_Name = name\<rparr>))
                            \<lparr>new_Text = t1, new_UserID = users_next_id db\<rparr>))
                     \<lparr>new_Text = t2, new_UserID = users_next_id db\<rparr>)))
              = Returned [Todo (todos_next_id db) t1 False (users_next_id db)
                            (User (users_next_id db) name []),
                          Todo (todos_next_id db + 1) t2 False (users_next_id db)
                            (User (users_next_id db) name [])] None"
    if e: "todos db = []" "users db = []"
      and f: "varchar255 name" "varchar255 t1" "varchar255 t2"
        "int32 (users_next_id db)" "int32 (todos_next_id db + 1)"
  proof -
    have nz: "users_next_id db \<noteq> 0" using assms(1) by (simp add: wf_def)
    have up: "failing db = []" using assms(2) by (simp add: driver_ok_def)
    have "0 < todos_next_id db" using assms(1) by (simp add: wf_def)
    then have n1: "int32 (todos_next_id db)" using f(5) by (simp add: int32_def)
    have fu: "fits_user (users_next_id db) name" using f(1,4) by (simp add: fits_user_def)
    have f1: "fits_todo (todos_next_id db) t1 (users_next_id db)"
      using n1 f(2,4) by (simp add: fits_todo_def)
    have f2: "fits_todo (todos_next_id db + 1) t2 (users_next_id db)"
      using f(3,4,5) by (simp add: fits_todo_def)
    let ?u = "\<lparr>u_id = users_next_id db, u_name = name\<rparr>"
    let ?db1 = "db\<lparr>users := [?u], users_next_id := users_next_id db + 1\<rparr>"
    have c1: "CreateUser db \<lparr>new_Name = name\<rparr> = (Returned (User (users_next_id db) name []) None, ?db1)"
      using up e fu by (simp add: CreateUser_def gorm_Create_User_def fails_def Let_def)
    let ?r1 = "\<lparr>t_id = todos_next_id db, t_text = t1, t_done = False, t_user_id = users_next_id db\<rparr>"
    let ?db2 = "?db1\<lparr>todos := [?r1], todos_next_id := todos_next_id db + 1\<rparr>"
    have c2: "snd (CreateTodo ?db1 \<lparr>new_Text = t1, new_UserID = users_next_id db\<rparr>) = ?db2"
      using up e f1 by (simp add: CreateTodo_def gorm_Create_Todo_def fails_def Let_def)
    let ?r2 = "\<lparr>t_id = todos_next_id db + 1, t_text = t2, t_done = False, t_user_id = users_next_id db\<rparr>"
    let ?db3 = "?db2\<lparr>todos := [?r1, ?r2], todos_next_id := todos_next_id db + 1 + 1\<rparr>"
    have c3: "snd (CreateTodo ?db2 \<lparr>new_Text = t2, new_UserID = users_next_id db\<rparr>) = ?db3"
      using up e f2 by (simp add: CreateTodo_def gorm_Create_Todo_def fails_def Let_def)
    have c4: "fst (query_Todos ?db3) = Returned [Todo (todos_next_id db) t1 False (users_next_id db)
                            (User (users_next_id db) name []),
                          Todo (todos_next_id db + 1) t2 False (users_next_id db)
                            (User (users_next_id db) name [])] None"
      using up nz
      by (simp add: query_Todos_def gorm_Find_Todos_def preload_User_def scan_Todo_def
          scan_User_def fails_def Let_def)
    show ?thesis by (simp only: c1 c2 c3 c4 fst_conv snd_conv simp_thms)
  qed
  from general scen show ?thesis by blast
qed

theorem C8_list_todos_witness:
  "wf fresh_DB \<and> driver_ok fresh_DB \<and> todos fresh_DB = [] \<and> users fresh_DB = [] \<and>
   varchar255 ''Jamie'' \<and> varchar255 ''a'' \<and> varchar255 ''b'' \<and>
   int32 (users_next_id fresh_DB) \<and> int32 (todos_next_id fresh_DB + 1) \<and>
   fst (query_Todos
         (snd (CreateTodo
            (snd (CreateTodo (snd (CreateUser fresh_DB \<lparr>new_Name = ''Jamie''\<rparr>))
                   \<lparr>new_Text = ''a'', new_UserID = 1\<rparr>))
            \<lparr>new_Text = ''b'', new_UserID = 1\<rparr>)))
     = Returned [Todo 1 ''a'' False 1 (User 1 ''Jamie'' []),
                 Todo 2 ''b'' False 1 (User 1 ''Jamie'' [])] None"
proof -
  have a: "wf fresh_DB" by (rule wf_fresh_DB)
  have b: "driver_ok fresh_DB" by (rule driver_ok_fresh_DB)
  have e: "todos fresh_DB = []" "users fresh_DB = []"
    "todos_next_id fresh_DB = 1" "users_next_id fresh_DB = 1"
    by (simp_all add: fresh_DB_def)
  have f: "varchar255 ''Jamie''" "varchar255 ''a''" "varchar255 ''b''"
    "int32 (users_next_id fresh_DB)" "int32 (todos_next_id fresh_DB + 1)"
    by (simp_all add: e varchar255_def int32_def)
  show ?thesis
    using a b f C8_list_todos [OF a b, of "''Jamie''" "''a''" "''b''"] by (simp add: e)
qed

section \<open>C9: a create writes its own table only\<close>

text \<open>
  C9. In every state and for every input, \<^verbatim>\<open>CreateTodo\<close> leaves the \<^verbatim>\<open>users\<close> table and
  its counter as they were, and \<^verbatim>\<open>CreateUser\<close> leaves the \<^verbatim>\<open>todos\<close> table and its counter
  as they were.
\<close>

theorem C9_create_frames:
  "users (snd (CreateTodo db i)) = users db \<and>
   users_next_id (snd (CreateTodo db i)) = users_next_id db \<and>
   todos (snd (CreateUser db j)) = todos db \<and>
   todos_next_id (snd (CreateUser db j)) = todos_next_id db"
  by (simp add: CreateTodo_def CreateUser_def gorm_Create_Todo_def gorm_Create_User_def Let_def)

section \<open>C10: deleting an id that is not stored\<close>

text \<open>
  C10. \<^verbatim>\<open>DeleteTodo\<close> of an id that is not stored should change neither table. For every
  such id other than 0 it does (lemma \<open>DeleteTodo_miss\<close>). For id 0 it does not: the
  struct \<^verbatim>\<open>Todo{ID: 0}\<close> has a blank primary key, so \<^verbatim>\<open>First\<close> has no condition and loads
  the row with the least id, and \<^verbatim>\<open>Delete\<close> removes that row. In the example state no row
  has id 0, and \<^verbatim>\<open>DeleteTodo\<close> of 0 deletes row 1 and returns it. The fetch, which passes
  the id as a condition, finds nothing for id 0. \<^verbatim>\<open>UpdateTodo\<close> looks the row up the same
  way as \<^verbatim>\<open>DeleteTodo\<close>, and for id 0 rewrites the text of row 1 (lemma
  \<open>UpdateTodo_id_zero\<close>).
\<close>

theorem C10_delete_id_zero:
  "\<not> stored_Todo sample_DB 0 \<and>
   DeleteTodo sample_DB 0 =
     (Returned (Todo 1 ''a'' False 1 zero_User) None,
      sample_DB\<lparr>todos := [\<lparr>t_id = 2, t_text = ''b'', t_done = False, t_user_id = 1\<rparr>]\<rparr>)"
  by (simp add: stored_Todo_def sample_DB_def DeleteTodo_def gorm_First_def gorm_Delete_Todo_def
      pk_cond_def inline_cond_def scan_Todo_def fails_def Let_def)

lemma UpdateTodo_id_zero:
  "UpdateTodo sample_DB \<lparr>edit_ID = 0, edit_Text = ''z''\<rparr> =
     (Returned (Todo 1 ''z'' False 1 zero_User) None,
      sample_DB\<lparr>todos := [\<lparr>t_id = 1, t_text = ''z'', t_done = False, t_user_id = 1\<rparr>,
                           \<lparr>t_id = 2, t_text = ''b'', t_done = False, t_user_id = 1\<rparr>]\<rparr>)"
  by (simp add: sample_DB_def UpdateTodo_def gorm_First_def gorm_Update_Todo_def
      pk_cond_def inline_cond_def scan_Todo_def assign_Todo_def fits_todo_def int32_def
      varchar255_def fails_def Let_def)

end
